theory Spec2Isabelle
  imports Main
begin

section \<open>The interactive data plotter (example.py)\<close>

text \<open>
  The script is re-executed from its first line on every user interaction. The only
  state that survives a run is the list \<open>st.session_state.traces\<close>. One run is
  modelled by \<open>run_script\<close>: it takes what the widgets return in this run and the
  session state, and gives back the outcome of the run, the traces stored afterwards
  and the elements written to the page, in order.

  Strings are byte lists in UTF-8, so the emoji of the messages are written as bytes.
  The values of the table cells are of an arbitrary type \<open>'v\<close>: the script never looks
  at them.
\<close>

subsection \<open>Exceptions\<close>

text \<open>
  The exceptions that the statements of the \<open>try\<close> block can raise. All of them derive
  from Python's \<open>Exception\<close>. \<open>ReadError\<close> stands for whatever \<open>pd.read_csv\<close> raises
  on a file it cannot parse and carries its message; \<open>KeyError\<close> carries the missing
  key.
\<close>

datatype exn =
    ReadError string
  | KeyError string
  | AttributeError string
  | IndexError string

text \<open>
  \<open>str(e)\<close>, as the f-string of the handler formats it. For a \<open>KeyError\<close> Python
  prints the \<open>repr\<close> of the key; Python's quoting of a string is not part of the
  script and is the parameter \<open>repr\<close>.
\<close>

fun str_exn :: "(string \<Rightarrow> string) \<Rightarrow> exn \<Rightarrow> string" where
  "str_exn repr (ReadError msg) = msg"
| "str_exn repr (KeyError k) = repr k"
| "str_exn repr (AttributeError msg) = msg"
| "str_exn repr (IndexError msg) = msg"

text \<open>
  What ends a block before its last statement: an exception, or the control exception
  of \<open>st.rerun()\<close>, which derives from \<open>BaseException\<close> and therefore passes
  through \<open>except Exception\<close>.
\<close>

datatype signal = Raised exn | RerunSignal

subsection \<open>The table\<close>

datatype dtype = Int64 | Float64 | Bool | Object

record 'v column =
  col_name :: string
  col_dtype :: dtype
  col_values :: "'v list"

text \<open>A DataFrame: the length of its index and its columns, in file order.\<close>

record 'v dataframe =
  nrows :: nat
  cols :: "'v column list"

definition columns :: "'v dataframe \<Rightarrow> string list" where
  "columns df = map col_name (cols df)"

definition dtypes :: "'v dataframe \<Rightarrow> (string \<times> dtype) list" where
  "dtypes df = map (\<lambda>c. (col_name c, col_dtype c)) (cols df)"

definition shape :: "'v dataframe \<Rightarrow> nat \<times> nat" where
  "shape df = (nrows df, length (cols df))"

definition head :: "nat \<Rightarrow> 'v dataframe \<Rightarrow> 'v dataframe" where
  "head n df =
     \<lparr>nrows = min n (nrows df),
      cols = map (\<lambda>c. c\<lparr>col_values := take n (col_values c)\<rparr>) (cols df)\<rparr>"

text \<open>
  What \<open>pd.read_csv\<close> promises of the table it returns: every column has one value
  per row, and no two columns share a name (the parser renames a repeated header).
\<close>

definition table_ok :: "'v dataframe \<Rightarrow> bool" where
  "table_ok df \<longleftrightarrow>
     distinct (columns df) \<and> list_all (\<lambda>c. length (col_values c) = nrows df) (cols df)"

text \<open>
  \<open>df[key]\<close>: no column of that name is a \<open>KeyError\<close>, one column is a Series,
  several columns of that name are a DataFrame of them.
\<close>

datatype 'v selection = Series "'v column" | Frame "'v column list"

definition getitem :: "'v dataframe \<Rightarrow> string \<Rightarrow> exn + 'v selection" where
  "getitem df key =
     (case filter (\<lambda>c. col_name c = key) (cols df) of
        [] \<Rightarrow> Inl (KeyError key)
      | [c] \<Rightarrow> Inr (Series c)
      | cs \<Rightarrow> Inr (Frame cs))"

text \<open>\<open>.tolist()\<close>: the values of a Series in row order; a DataFrame has no such method.\<close>

definition tolist :: "'v selection \<Rightarrow> exn + 'v list" where
  "tolist s =
     (case s of
        Series c \<Rightarrow> Inr (col_values c)
      | Frame cs \<Rightarrow>
          Inl (AttributeError
                 (CHR 0x27 # ''DataFrame'' @ CHR 0x27 # '' object has no attribute ''
                    @ CHR 0x27 # ''tolist'' @ [CHR 0x27])))"

subsection \<open>Traces and the figure\<close>

text \<open>The dictionary \<open>new_trace\<close>, with its five keys.\<close>

record 'v trace =
  tr_x :: "'v list"
  tr_y :: "'v list"
  tr_name :: string
  tr_x_label :: string
  tr_y_label :: string

text \<open>
  The dictionary display evaluates \<open>df[x_column].tolist()\<close> before
  \<open>df[y_column].tolist()\<close>, so a failure on the x column is the one raised.
\<close>

definition new_trace ::
  "'v dataframe \<Rightarrow> string \<Rightarrow> string \<Rightarrow> string \<Rightarrow> string \<Rightarrow> string \<Rightarrow> exn + 'v trace" where
  "new_trace df x_column y_column trace_name x_label y_label =
     (case getitem df x_column of
        Inl e \<Rightarrow> Inl e
      | Inr sx \<Rightarrow>
          (case tolist sx of
             Inl e \<Rightarrow> Inl e
           | Inr xs \<Rightarrow>
               (case getitem df y_column of
                  Inl e \<Rightarrow> Inl e
                | Inr sy \<Rightarrow>
                    (case tolist sy of
                       Inl e \<Rightarrow> Inl e
                     | Inr ys \<Rightarrow>
                         Inr \<lparr>tr_x = xs, tr_y = ys, tr_name = trace_name,
                              tr_x_label = x_label, tr_y_label = y_label\<rparr>))))"

record 'v scatter =
  sc_x :: "'v list"
  sc_y :: "'v list"
  sc_mode :: string
  sc_name :: string
  sc_marker_size :: nat
  sc_line_width :: nat

record layout =
  title_text :: string
  title_font_size :: nat
  xaxis_title_text :: string
  xaxis_title_font_size :: nat
  xaxis_tickfont_size :: nat
  yaxis_title_text :: string
  yaxis_title_font_size :: nat
  yaxis_tickfont_size :: nat
  hovermode :: string
  hoverlabel_bgcolor :: string
  hoverlabel_font_size :: nat
  hoverlabel_font_family :: string
  height :: nat
  showlegend :: bool
  legend_font_size :: nat
  font_size :: nat

text \<open>A figure: its traces in the order they were added, and the layout once it is set.\<close>

record 'v figure =
  fig_data :: "'v scatter list"
  fig_layout :: "layout option"

definition Figure :: "'v figure" where
  "Figure = \<lparr>fig_data = [], fig_layout = None\<rparr>"

definition Scatter :: "'v trace \<Rightarrow> 'v scatter" where
  "Scatter trace =
     \<lparr>sc_x = tr_x trace, sc_y = tr_y trace, sc_mode = ''lines+markers'',
      sc_name = tr_name trace, sc_marker_size = 10, sc_line_width = 3\<rparr>"

definition add_trace :: "'v figure \<Rightarrow> 'v scatter \<Rightarrow> 'v figure" where
  "add_trace fig sc = fig\<lparr>fig_data := fig_data fig @ [sc]\<rparr>"

text \<open>The loop \<open>for trace in st.session_state.traces\<close>.\<close>

fun add_traces :: "'v figure \<Rightarrow> 'v trace list \<Rightarrow> 'v figure" where
  "add_traces fig [] = fig"
| "add_traces fig (trace # rest) = add_traces (add_trace fig (Scatter trace)) rest"

text \<open>
  Python's \<open>xs[i]\<close>: a negative index counts from the end, and an index outside the
  list raises \<open>IndexError\<close>.
\<close>

definition list_getitem :: "'a list \<Rightarrow> int \<Rightarrow> exn + 'a" where
  "list_getitem xs i =
     (if 0 \<le> i \<and> i < int (length xs) then Inr (xs ! nat i)
      else if i < 0 \<and> - int (length xs) \<le> i then Inr (xs ! nat (int (length xs) + i))
      else Inl (IndexError ''list index out of range''))"

definition update_layout :: "'v figure \<Rightarrow> 'v trace \<Rightarrow> 'v figure" where
  "update_layout fig last_trace =
     fig\<lparr>fig_layout := Some
       \<lparr>title_text = ''Your Interactive Plot'',
        title_font_size = 28,
        xaxis_title_text = tr_x_label last_trace,
        xaxis_title_font_size = 22,
        xaxis_tickfont_size = 18,
        yaxis_title_text = tr_y_label last_trace,
        yaxis_title_font_size = 22,
        yaxis_tickfont_size = 18,
        hovermode = ''closest'',
        hoverlabel_bgcolor = ''white'',
        hoverlabel_font_size = 18,
        hoverlabel_font_family = ''Arial'',
        height = 600,
        showlegend = True,
        legend_font_size = 16,
        font_size = 16\<rparr>\<rparr>"

text \<open>
  Lines 101 to 144 of the script: the figure built from the stored traces. The script
  reads \<open>traces[-1]\<close>, which raises on an empty list.
\<close>

definition build_figure :: "'v trace list \<Rightarrow> exn + 'v figure" where
  "build_figure traces =
     (let fig = add_traces Figure traces
      in case list_getitem traces (- 1) of
           Inl e \<Rightarrow> Inl e
         | Inr last_trace \<Rightarrow> Inr (update_layout fig last_trace))"

subsection \<open>The page\<close>

text \<open>Decimal digits of a number, as an f-string prints an \<open>int\<close>.\<close>

function str_nat :: "nat \<Rightarrow> string" where
  "str_nat n =
     (if n < 10 then [''0123456789'' ! n]
      else str_nat (n div 10) @ [''0123456789'' ! (n mod 10)])"
  by pat_completeness auto
termination
  by (relation "measure id") auto

declare str_nat.simps [simp del]

text \<open>The elements a run writes to the page.\<close>

datatype 'v element =
    Title string
  | Write string
  | Write_list "string list"
  | Write_dict "(string \<times> dtype) list"
  | File_uploader string
  | Success string
  | Error string
  | Info string
  | Subheader string
  | Dataframe "'v dataframe"
  | Divider
  | Selectbox string "string list"
  | Text_input string string
  | Button string
  | Plotly_chart "'v figure"

text \<open>
  What the widgets return in one run. \<open>uploaded_file\<close> is the content of the uploaded
  file, if there is one. A select box returns one of its options; the model takes the
  returned name as it is. A text input returns the text the user typed, and the
  \<open>value\<close> argument when the user typed nothing (\<open>None\<close> here). A button returns
  \<open>True\<close> in the run its click triggers.
\<close>

record inputs =
  uploaded_file :: "string option"
  x_column_sel :: string
  y_column_sel :: string
  x_label_typed :: "string option"
  y_label_typed :: "string option"
  trace_name_typed :: "string option"
  add_clicked :: bool
  clear_clicked :: bool

definition text_input :: "string option \<Rightarrow> string \<Rightarrow> string" where
  "text_input typed val = (case typed of None \<Rightarrow> val | Some s \<Rightarrow> s)"

text \<open>
  The two external functions the script relies on: the CSV parser, which returns a
  table or raises, and Python's \<open>repr\<close> on strings.
\<close>

record 'v env =
  read_csv :: "string \<Rightarrow> exn + 'v dataframe"
  repr :: "string \<Rightarrow> string"

text \<open>The state of a run: the stored traces and the page written so far.\<close>

record 'v run_state =
  traces :: "'v trace list"
  page :: "'v element list"

definition emit :: "'v element list \<Rightarrow> 'v run_state \<Rightarrow> 'v run_state" where
  "emit es s = s\<lparr>page := page s @ es\<rparr>"

text \<open>What the script shows of a table it has read (lines 30 to 53).\<close>

definition preview_elements :: "'v dataframe \<Rightarrow> 'v element list" where
  "preview_elements df =
     [Success (CHR 0xE2 # CHR 0x9C # CHR 0x85 # '' File uploaded successfully! Shape: ''
                 @ str_nat (fst (shape df)) @ '' rows '' @ CHR 0xC3 # CHR 0x97 # '' ''
                 @ str_nat (snd (shape df)) @ '' columns''),
      Subheader (CHR 0xF0 # CHR 0x9F # CHR 0x93 # CHR 0x8B # '' Data Preview''),
      Dataframe (head 10 df),
      Subheader (CHR 0xF0 # CHR 0x9F # CHR 0x93 # CHR 0x88 # '' Column Information''),
      Write ''**Available Columns:**'',
      Write_list (columns df),
      Write ''**Data Types:**'',
      Write_dict (dtypes df),
      Divider,
      Subheader (CHR 0xF0 # CHR 0x9F # CHR 0x8E # CHR 0xA8 # '' Create Your Plot'')]"

text \<open>The widgets of the form (lines 59 to 78), with the defaults of the text inputs.\<close>

definition form_elements :: "'v dataframe \<Rightarrow> string \<Rightarrow> string \<Rightarrow> 'v element list" where
  "form_elements df x_column y_column =
     [Selectbox ''Select X-axis column:'' (columns df),
      Selectbox ''Select Y-axis column:'' (columns df),
      Text_input ''X-axis label (optional):'' x_column,
      Text_input ''Y-axis label (optional):'' y_column,
      Text_input ''Trace name (optional):'' (y_column @ '' vs '' @ x_column),
      Button (CHR 0xE2 # CHR 0x9E # CHR 0x95 # '' Add to Plot'')]"

definition clear_button :: "'v element" where
  "clear_button =
     Button (CHR 0xF0 # CHR 0x9F # CHR 0x97 # CHR 0x91 # CHR 0xEF # CHR 0xB8 # CHR 0x8F
               # '' Clear All Traces'')"

text \<open>
  The body of \<open>if st.button("Add to Plot")\<close> (lines 79 to 87): the trace is built
  from the table and the form values and appended to the stored list.
\<close>

definition add_to_plot ::
  "'v dataframe \<Rightarrow> string \<Rightarrow> string \<Rightarrow> string \<Rightarrow> string \<Rightarrow> string \<Rightarrow> 'v run_state
     \<Rightarrow> exn + 'v run_state" where
  "add_to_plot df x_column y_column trace_name x_label y_label s =
     (case new_trace df x_column y_column trace_name x_label y_label of
        Inl e \<Rightarrow> Inl e
      | Inr t \<Rightarrow>
          Inr (emit [Success (''Added trace: '' @ trace_name)] (s\<lparr>traces := traces s @ [t]\<rparr>)))"

text \<open>
  Lines 89 to 92: the clear button is there only while traces are stored; its click
  empties the list and reruns the script.
\<close>

definition clear_all_traces :: "inputs \<Rightarrow> 'v run_state \<Rightarrow> signal option \<times> 'v run_state" where
  "clear_all_traces inp s =
     (if traces s \<noteq> [] then
        (let s' = emit [clear_button] s
         in if clear_clicked inp then (Some RerunSignal, s'\<lparr>traces := []\<rparr>)
            else (None, s'))
      else (None, s))"

text \<open>
  The statements of the \<open>try\<close> block after the table is read (lines 30 to 92). The
  result is the signal that ended the block, if one did, and the state reached.
\<close>

definition form_section ::
  "inputs \<Rightarrow> 'v dataframe \<Rightarrow> 'v run_state \<Rightarrow> signal option \<times> 'v run_state" where
  "form_section inp df s0 =
     (let s1 = emit (preview_elements df) s0;
          x_column = x_column_sel inp;
          y_column = y_column_sel inp;
          x_label = text_input (x_label_typed inp) x_column;
          y_label = text_input (y_label_typed inp) y_column;
          trace_name = text_input (trace_name_typed inp) (y_column @ '' vs '' @ x_column);
          s2 = emit (form_elements df x_column y_column) s1
      in case (if add_clicked inp
               then add_to_plot df x_column y_column trace_name x_label y_label s2
               else Inr s2) of
           Inl e \<Rightarrow> (Some (Raised e), s2)
         | Inr s3 \<Rightarrow> clear_all_traces inp s3)"

text \<open>
  The trace that the add button builds in a run: \<open>new_trace\<close> on the values the
  form holds in that run, as \<open>form_section\<close> passes them.
\<close>

definition built_trace :: "inputs \<Rightarrow> 'v dataframe \<Rightarrow> exn + 'v trace" where
  "built_trace inp df =
     new_trace df (x_column_sel inp) (y_column_sel inp)
       (text_input (trace_name_typed inp) (y_column_sel inp @ '' vs '' @ x_column_sel inp))
       (text_input (x_label_typed inp) (x_column_sel inp))
       (text_input (y_label_typed inp) (y_column_sel inp))"

text \<open>The \<open>try\<close> block: reading the file, then the rest.\<close>

definition try_block ::
  "'v env \<Rightarrow> inputs \<Rightarrow> string \<Rightarrow> 'v run_state \<Rightarrow> signal option \<times> 'v run_state" where
  "try_block env inp file s =
     (case read_csv env file of
        Inl e \<Rightarrow> (Some (Raised e), s)
      | Inr df \<Rightarrow> form_section inp df s)"

text \<open>
  \<open>try ... except Exception as e\<close>: an exception is turned into an error message and
  the script goes on; the rerun signal is not an \<open>Exception\<close> and leaves the block.
\<close>

definition try_except ::
  "'v env \<Rightarrow> inputs \<Rightarrow> string \<Rightarrow> 'v run_state \<Rightarrow> signal option \<times> 'v run_state" where
  "try_except env inp file s =
     (case try_block env inp file s of
        (Some (Raised e), s') \<Rightarrow>
          (None, emit [Error (CHR 0xE2 # CHR 0x9D # CHR 0x8C # '' Error reading file: ''
                                @ str_exn (repr env) e)] s')
      | (Some RerunSignal, s') \<Rightarrow> (Some RerunSignal, s')
      | (None, s') \<Rightarrow> (None, s'))"

text \<open>The last block of the script (lines 97 to 148).\<close>

definition plot_section :: "'v run_state \<Rightarrow> signal option \<times> 'v run_state" where
  "plot_section s =
     (if traces s \<noteq> [] then
        (let s1 = emit
               [Divider,
                Subheader (CHR 0xF0 # CHR 0x9F # CHR 0x93 # CHR 0x8A # '' Interactive Plot'')] s
         in case build_figure (traces s1) of
              Inl e \<Rightarrow> (Some (Raised e), s1)
            | Inr fig \<Rightarrow>
                (None, emit
                   [Plotly_chart fig,
                    Info (CHR 0xF0 # CHR 0x9F # CHR 0x93 # CHR 0x8C # '' Currently displaying ''
                            @ str_nat (length (traces s1)) @ '' trace(s)'')] s1))
      else (None, s))"

text \<open>
  How a run ends: at its last line, at \<open>st.rerun()\<close>, which makes the framework run
  the script again at once, or with an exception that nothing caught.
\<close>

datatype outcome = Done | Rerun | Uncaught exn

text \<open>
  Lines 14 and 15: the session state holds no \<open>traces\<close> key in the first run of a
  session (\<open>None\<close>); the script then stores the empty list.
\<close>

definition init_session :: "'v trace list option \<Rightarrow> 'v trace list" where
  "init_session session_state = (case session_state of None \<Rightarrow> [] | Some ts \<Rightarrow> ts)"

text \<open>Lines 17 to 23: the head of the page.\<close>

definition header_elements :: "'v element list" where
  "header_elements =
     [Title (CHR 0xF0 # CHR 0x9F # CHR 0x93 # CHR 0x8A # '' Interactive Data Plotter''),
      Write ''Upload your data, select columns, and create interactive plots!'',
      File_uploader ''Choose a CSV file'']"

text \<open>Lines 25 to 95: \<open>if uploaded_file is not None\<close>.\<close>

definition upload_section ::
  "'v env \<Rightarrow> inputs \<Rightarrow> 'v run_state \<Rightarrow> signal option \<times> 'v run_state" where
  "upload_section env inp s =
     (case uploaded_file inp of
        None \<Rightarrow> (None, s)
      | Some file \<Rightarrow> try_except env inp file s)"

text \<open>What a signal that reaches the top of the script makes of the run.\<close>

fun ended :: "signal \<Rightarrow> outcome" where
  "ended RerunSignal = Rerun"
| "ended (Raised e) = Uncaught e"

text \<open>One run of the script, from its first line.\<close>

definition run_script ::
  "'v env \<Rightarrow> inputs \<Rightarrow> 'v trace list option \<Rightarrow> outcome \<times> 'v run_state" where
  "run_script env inp session_state =
     (let s0 = \<lparr>traces = init_session session_state, page = []\<rparr>;
          s1 = emit header_elements s0
      in case upload_section env inp s1 of
           (Some sig, s2) \<Rightarrow> (ended sig, s2)
         | (None, s2) \<Rightarrow>
             (case plot_section s2 of
                (Some sig, s3) \<Rightarrow> (ended sig, s3)
              | (None, s3) \<Rightarrow> (Done, s3)))"

text \<open>
  A button is \<open>True\<close> only in the run its click triggered; in the run that
  \<open>st.rerun()\<close> starts every other widget keeps its value.
\<close>

definition release_buttons :: "inputs \<Rightarrow> inputs" where
  "release_buttons inp = inp\<lparr>add_clicked := False, clear_clicked := False\<rparr>"

text \<open>
  One user interaction: the script runs, and runs again as long as a run ends in
  \<open>st.rerun()\<close>. A run asks for a rerun only from the clear button, which the rerun
  finds released, so this ends.
\<close>

function interact ::
  "'v env \<Rightarrow> inputs \<Rightarrow> 'v trace list option \<Rightarrow> outcome \<times> 'v run_state" where
  "interact env inp session_state =
     (case run_script env inp session_state of
        (Rerun, s) \<Rightarrow> interact env (release_buttons inp) (Some (traces s))
      | r \<Rightarrow> r)"
  by pat_completeness auto
termination
proof (relation "measure (\<lambda>(env, inp, session_state). if clear_clicked inp then 1 else 0)")
  show "wf (measure (\<lambda>(env :: 'v env, inp, session_state :: 'v trace list option).
              if clear_clicked inp then 1 else 0))"
    by simp
next
  fix env :: "'v env" and inp session_state and x1 :: outcome and x2 :: "'v run_state"
  assume run: "(x1, x2) = run_script env inp session_state" and rerun: "x1 = Rerun"
  have clear: "clear_all_traces inp s = (Some RerunSignal, s') \<Longrightarrow> clear_clicked inp"
    for s s' :: "'v run_state"
    by (simp add: clear_all_traces_def Let_def split: if_splits)
  have form: "form_section inp df s = (Some RerunSignal, s') \<Longrightarrow> clear_clicked inp"
    for df and s s' :: "'v run_state"
    using clear by (simp add: form_section_def Let_def split: sum.splits if_splits)
  have handled: "try_except env inp content s = (Some RerunSignal, s') \<Longrightarrow> clear_clicked inp"
    for content and s s' :: "'v run_state"
    using form
    by (auto simp: try_except_def try_block_def
          split: sum.splits prod.splits option.splits signal.splits)
  have upload: "upload_section env inp s = (Some RerunSignal, s') \<Longrightarrow> clear_clicked inp"
    for s s' :: "'v run_state"
    using handled by (simp add: upload_section_def split: option.splits)
  have plot: "plot_section s \<noteq> (Some RerunSignal, s')" for s s' :: "'v run_state"
    by (simp add: plot_section_def Let_def split: sum.splits)
  have sig: "ended sig = Rerun \<longleftrightarrow> sig = RerunSignal" for sig
    by (cases sig) simp_all
  define s1 :: "'v run_state"
    where "s1 = emit header_elements \<lparr>traces = init_session session_state, page = []\<rparr>"
  obtain sig1 s2 where u: "upload_section env inp s1 = (sig1, s2)"
    by (cases "upload_section env inp s1")
  obtain sig2 s3 where p: "plot_section s2 = (sig2, s3)"
    by (cases "plot_section s2")
  have "clear_clicked inp"
  proof (cases sig1)
    case None
    with run [symmetric] rerun u p plot [of s2 s3] show ?thesis
      by (cases sig2) (simp_all add: run_script_def sig flip: s1_def)
  next
    case (Some a)
    with run [symmetric] rerun u upload [of s1 s2] show ?thesis
      by (simp add: run_script_def sig flip: s1_def)
  qed
  then show "((env, release_buttons inp, Some (traces x2)), env, inp, session_state)
      \<in> measure (\<lambda>(env, inp, session_state). if clear_clicked inp then 1 else 0)"
    by (simp add: release_buttons_def)
qed

declare interact.simps [simp del]

text \<open>
  A session: the interactions of the user one after the other, each starting from the
  traces the one before left in the session state.
\<close>

fun run_session :: "'v env \<Rightarrow> inputs list \<Rightarrow> 'v trace list option \<Rightarrow> 'v trace list option" where
  "run_session env [] session_state = session_state"
| "run_session env (inp # rest) session_state =
     run_session env rest (Some (traces (snd (interact env inp session_state))))"

subsection \<open>Add actions and example data\<close>

text \<open>
  An add action with a valid selection: a file is uploaded and parses to a well-formed
  table, both selected names are columns of it, and the add button is the one clicked.
\<close>

definition valid_add :: "'v env \<Rightarrow> inputs \<Rightarrow> bool" where
  "valid_add env inp =
     (case uploaded_file inp of
        None \<Rightarrow> False
      | Some file \<Rightarrow>
          (case read_csv env file of
             Inl e \<Rightarrow> False
           | Inr df \<Rightarrow>
               table_ok df \<and> x_column_sel inp \<in> set (columns df)
               \<and> y_column_sel inp \<in> set (columns df)
               \<and> add_clicked inp \<and> \<not> clear_clicked inp))"

text \<open>What the trace builder returns in a run, if the run gets to call it with a table.\<close>

definition builder_output :: "'v env \<Rightarrow> inputs \<Rightarrow> 'v trace option" where
  "builder_output env inp =
     (case uploaded_file inp of
        None \<Rightarrow> None
      | Some file \<Rightarrow>
          (case read_csv env file of
             Inl e \<Rightarrow> None
           | Inr df \<Rightarrow> (case built_trace inp df of Inl e \<Rightarrow> None | Inr t \<Rightarrow> Some t)))"

text \<open>
  A table of two columns and five rows, the table of a file that has only the header
  line, a parser that knows these two files, and the form as the user finds it: first
  no file, then the file with the defaults untouched.
\<close>

definition example_table :: "int dataframe" where
  "example_table =
     \<lparr>nrows = 5,
      cols = [\<lparr>col_name = ''time'', col_dtype = Int64, col_values = [0, 1, 2, 3, 4]\<rparr>,
              \<lparr>col_name = ''value'', col_dtype = Int64, col_values = [10, 20, 15, 30, 25]\<rparr>]\<rparr>"

definition header_only_table :: "int dataframe" where
  "header_only_table =
     \<lparr>nrows = 0,
      cols = [\<lparr>col_name = ''time'', col_dtype = Object, col_values = []\<rparr>,
              \<lparr>col_name = ''value'', col_dtype = Object, col_values = []\<rparr>]\<rparr>"

definition example_env :: "int env" where
  "example_env =
     \<lparr>read_csv = (\<lambda>file.
        if file = ''data.csv'' then Inr example_table
        else if file = ''header.csv'' then Inr header_only_table
        else Inl (ReadError ''No columns to parse from file'')),
      repr = (\<lambda>k. CHR 0x27 # k @ [CHR 0x27])\<rparr>"

definition no_upload :: inputs where
  "no_upload =
     \<lparr>uploaded_file = None, x_column_sel = [], y_column_sel = [], x_label_typed = None,
      y_label_typed = None, trace_name_typed = None, add_clicked = False,
      clear_clicked = False\<rparr>"

definition example_add :: inputs where
  "example_add =
     \<lparr>uploaded_file = Some ''data.csv'', x_column_sel = ''time'', y_column_sel = ''value'',
      x_label_typed = None, y_label_typed = None, trace_name_typed = None,
      add_clicked = True, clear_clicked = False\<rparr>"

definition example_trace :: "int trace" where
  "example_trace =
     \<lparr>tr_x = [0, 1, 2, 3, 4], tr_y = [10, 20, 15, 30, 25], tr_name = ''value vs time'',
      tr_x_label = ''time'', tr_y_label = ''value''\<rparr>"




section \<open>Properties\<close>

subsection \<open>The parts of the script\<close>

lemma traces_emit [simp]: "traces (emit es s) = traces s"
  by (simp add: emit_def)

lemma page_emit [simp]: "page (emit es s) = page s @ es"
  by (simp add: emit_def)

lemma list_getitem_last: "xs \<noteq> [] \<Longrightarrow> list_getitem xs (- 1) = Inr (last xs)"
proof -
  assume ne: "xs \<noteq> []"
  then have len: "Suc 0 \<le> length xs" by (cases xs) simp_all
  then have "nat (int (length xs) + - 1) = length xs - 1" by simp
  with ne len show ?thesis
    by (simp add: list_getitem_def last_conv_nth)
qed

lemma list_getitem_empty: "list_getitem [] (- 1) = Inl (IndexError ''list index out of range'')"
  by (simp add: list_getitem_def)

lemma fig_data_add_traces: "fig_data (add_traces fig ts) = fig_data fig @ map Scatter ts"
  by (induction ts arbitrary: fig) (simp_all add: add_trace_def)

lemma fig_layout_add_traces: "fig_layout (add_traces fig ts) = fig_layout fig"
  by (induction ts arbitrary: fig) (simp_all add: add_trace_def)

lemma build_figure_nonempty:
  "ts \<noteq> [] \<Longrightarrow> build_figure ts = Inr (update_layout (add_traces Figure ts) (last ts))"
  by (simp add: build_figure_def list_getitem_last)

lemma build_figure_empty: "build_figure [] = Inl (IndexError ''list index out of range'')"
  by (simp add: build_figure_def list_getitem_empty)

lemma build_figure_Inr_iff:
  "build_figure ts = Inr fig \<longleftrightarrow>
     ts \<noteq> [] \<and> fig = update_layout (add_traces Figure ts) (last ts)"
  by (cases "ts = []") (auto simp: build_figure_empty build_figure_nonempty)

lemma filter_unique:
  "distinct (map f xs) \<Longrightarrow> c \<in> set xs \<Longrightarrow> filter (\<lambda>d. f d = f c) xs = [c]"
proof (induction xs)
  case Nil
  then show ?case by simp
next
  case (Cons a xs)
  show ?case
  proof (cases "a = c")
    case True
    with Cons.prems have "filter (\<lambda>d. f d = f c) xs = []"
      by (auto simp: filter_empty_conv image_iff)
    with True show ?thesis by simp
  next
    case False
    with Cons.prems have "c \<in> set xs" and "f a \<noteq> f c" and "distinct (map f xs)"
      by (auto simp: image_iff)
    with Cons.IH show ?thesis by simp
  qed
qed

lemma getitem_known:
  "table_ok df \<Longrightarrow> c \<in> set (cols df) \<Longrightarrow> getitem df (col_name c) = Inr (Series c)"
  by (simp add: getitem_def table_ok_def columns_def filter_unique)


lemma new_trace_known:
  assumes "table_ok df" and "cx \<in> set (cols df)" and "cy \<in> set (cols df)"
  shows "new_trace df (col_name cx) (col_name cy) trace_name x_label y_label =
           Inr \<lparr>tr_x = col_values cx, tr_y = col_values cy, tr_name = trace_name,
                tr_x_label = x_label, tr_y_label = y_label\<rparr>"
  using assms by (simp add: new_trace_def getitem_known tolist_def)

lemma column_of_name:
  "key \<in> set (columns df) \<Longrightarrow> \<exists>c \<in> set (cols df). col_name c = key"
  by (auto simp: columns_def)

lemma column_length: "table_ok df \<Longrightarrow> c \<in> set (cols df) \<Longrightarrow> length (col_values c) = nrows df"
  by (simp add: table_ok_def list_all_iff)


lemma plot_section_empty: "traces s = [] \<Longrightarrow> plot_section s = (None, s)"
  by (simp add: plot_section_def)

lemma plot_section_nonempty:
  "traces s \<noteq> [] \<Longrightarrow>
     plot_section s =
       (None, emit
          [Plotly_chart (update_layout (add_traces Figure (traces s)) (last (traces s))),
           Info (CHR 0xF0 # CHR 0x9F # CHR 0x93 # CHR 0x8C # '' Currently displaying ''
                   @ str_nat (length (traces s)) @ '' trace(s)'')]
          (emit [Divider,
                 Subheader (CHR 0xF0 # CHR 0x9F # CHR 0x93 # CHR 0x8A # '' Interactive Plot'')]
             s))"
  by (simp add: plot_section_def Let_def build_figure_nonempty)

lemma plot_section_signal: "fst (plot_section s) = None"
  by (cases "traces s = []") (simp_all add: plot_section_empty plot_section_nonempty)

lemma plot_section_traces: "traces (snd (plot_section s)) = traces s"
  by (cases "traces s = []") (simp_all add: plot_section_empty plot_section_nonempty)

lemma plot_section_chart:
  "Plotly_chart fig \<in> set (page (snd (plot_section s))) \<longleftrightarrow>
     Plotly_chart fig \<in> set (page s) \<or> build_figure (traces s) = Inr fig"
  by (cases "traces s = []")
    (auto simp: plot_section_empty plot_section_nonempty build_figure_Inr_iff)

lemma plot_section_info:
  "Info msg \<in> set (page (snd (plot_section s))) \<longleftrightarrow>
     Info msg \<in> set (page s) \<or>
     traces s \<noteq> [] \<and>
     msg = CHR 0xF0 # CHR 0x9F # CHR 0x93 # CHR 0x8C # '' Currently displaying ''
             @ str_nat (length (traces s)) @ '' trace(s)''"
  by (cases "traces s = []") (auto simp: plot_section_empty plot_section_nonempty)

lemma plot_section_keeps: "e \<in> set (page s) \<Longrightarrow> e \<in> set (page (snd (plot_section s)))"
  by (cases "traces s = []") (simp_all add: plot_section_empty plot_section_nonempty)


lemma clear_all_traces_signal:
  "fst (clear_all_traces inp s) =
     (if traces s \<noteq> [] \<and> clear_clicked inp then Some RerunSignal else None)"
  by (simp add: clear_all_traces_def Let_def)

lemma clear_all_traces_traces:
  "traces (snd (clear_all_traces inp s)) = (if clear_clicked inp then [] else traces s)"
  by (simp add: clear_all_traces_def Let_def)

lemma clear_all_traces_page:
  "page (snd (clear_all_traces inp s)) =
     page s @ (if traces s \<noteq> [] then [clear_button] else [])"
  by (simp add: clear_all_traces_def Let_def)

lemma form_section_no_add:
  "\<not> add_clicked inp \<Longrightarrow>
     form_section inp df s =
       clear_all_traces inp
         (emit (form_elements df (x_column_sel inp) (y_column_sel inp))
            (emit (preview_elements df) s))"
  by (simp add: form_section_def Let_def)

lemma form_section_add_fail:
  "add_clicked inp \<Longrightarrow> built_trace inp df = Inl e \<Longrightarrow>
     form_section inp df s =
       (Some (Raised e),
        emit (form_elements df (x_column_sel inp) (y_column_sel inp))
          (emit (preview_elements df) s))"
  by (simp add: form_section_def Let_def built_trace_def add_to_plot_def)

lemma form_section_add_ok:
  "add_clicked inp \<Longrightarrow> built_trace inp df = Inr t \<Longrightarrow>
     form_section inp df s =
       clear_all_traces inp
         (emit [Success (''Added trace: '' @ tr_name t)]
            ((emit (form_elements df (x_column_sel inp) (y_column_sel inp))
                (emit (preview_elements df) s))
             \<lparr>traces := traces s @ [t]\<rparr>))"
proof -
  assume add: "add_clicked inp" and built: "built_trace inp df = Inr t"
  from built have name:
    "tr_name t = text_input (trace_name_typed inp) (y_column_sel inp @ '' vs '' @ x_column_sel inp)"
    by (auto simp: built_trace_def new_trace_def split: sum.splits)
  from add built show ?thesis
    unfolding name by (simp add: form_section_def Let_def built_trace_def add_to_plot_def)
qed

lemma chart_not_in_sections [simp]:
  "Plotly_chart fig \<notin> set header_elements"
  "Plotly_chart fig \<notin> set (preview_elements df)"
  "Plotly_chart fig \<notin> set (form_elements df xc yc)"
  "Plotly_chart fig \<noteq> clear_button"
  by (simp_all add: header_elements_def preview_elements_def form_elements_def clear_button_def)

lemma info_not_in_sections [simp]:
  "Info msg \<notin> set header_elements"
  "Info msg \<notin> set (preview_elements df)"
  "Info msg \<notin> set (form_elements df xc yc)"
  "Info msg \<noteq> clear_button"
  by (simp_all add: header_elements_def preview_elements_def form_elements_def clear_button_def)

lemma form_section_chart:
  "Plotly_chart fig \<in> set (page (snd (form_section inp df s))) \<longleftrightarrow>
     Plotly_chart fig \<in> set (page s)"
proof (cases "add_clicked inp")
  case False
  then show ?thesis by (simp add: form_section_no_add clear_all_traces_page)
next
  case True
  then show ?thesis
    by (cases "built_trace inp df")
      (simp_all add: form_section_add_fail form_section_add_ok clear_all_traces_page)
qed

lemma form_section_info:
  "Info msg \<in> set (page (snd (form_section inp df s))) \<longleftrightarrow> Info msg \<in> set (page s)"
proof (cases "add_clicked inp")
  case False
  then show ?thesis by (simp add: form_section_no_add clear_all_traces_page)
next
  case True
  then show ?thesis
    by (cases "built_trace inp df")
      (simp_all add: form_section_add_fail form_section_add_ok clear_all_traces_page)
qed

lemma form_section_Rerun_traces:
  "fst (form_section inp df s) = Some RerunSignal \<Longrightarrow> traces (snd (form_section inp df s)) = []"
proof (cases "add_clicked inp")
  case False
  assume "fst (form_section inp df s) = Some RerunSignal"
  with False show ?thesis
    by (simp add: form_section_no_add clear_all_traces_signal clear_all_traces_traces
          split: if_splits)
next
  case True
  assume "fst (form_section inp df s) = Some RerunSignal"
  with True show ?thesis
    by (cases "built_trace inp df")
      (simp_all add: form_section_add_fail form_section_add_ok clear_all_traces_signal
         clear_all_traces_traces split: if_splits)
qed


lemma try_except_read_fail:
  "read_csv env content = Inl e \<Longrightarrow>
     try_except env inp content s =
       (None, emit [Error (CHR 0xE2 # CHR 0x9D # CHR 0x8C # '' Error reading file: ''
                             @ str_exn (repr env) e)] s)"
  by (simp add: try_except_def try_block_def)

lemma try_except_add_fail:
  "read_csv env content = Inr df \<Longrightarrow> add_clicked inp \<Longrightarrow> built_trace inp df = Inl e \<Longrightarrow>
     try_except env inp content s =
       (None, emit [Error (CHR 0xE2 # CHR 0x9D # CHR 0x8C # '' Error reading file: ''
                             @ str_exn (repr env) e)]
                (emit (form_elements df (x_column_sel inp) (y_column_sel inp))
                   (emit (preview_elements df) s)))"
  by (simp add: try_except_def try_block_def form_section_add_fail)

lemma try_except_form:
  "read_csv env content = Inr df \<Longrightarrow> (\<And>e. fst (form_section inp df s) \<noteq> Some (Raised e)) \<Longrightarrow>
     try_except env inp content s = form_section inp df s"
proof -
  assume ok: "read_csv env content = Inr df"
    and nr: "\<And>e. fst (form_section inp df s) \<noteq> Some (Raised e)"
  obtain sig s' where f: "form_section inp df s = (sig, s')"
    by (cases "form_section inp df s")
  show ?thesis
  proof (cases sig)
    case None
    with ok f show ?thesis by (simp add: try_except_def try_block_def)
  next
    case (Some a)
    with nr f have "a = RerunSignal" by (cases a) auto
    with ok f Some show ?thesis by (simp add: try_except_def try_block_def)
  qed
qed

lemma form_section_no_add_signal:
  "\<not> add_clicked inp \<Longrightarrow> fst (form_section inp df s) \<noteq> Some (Raised e)"
  by (simp add: form_section_no_add clear_all_traces_signal)

lemma form_section_add_ok_signal:
  "add_clicked inp \<Longrightarrow> built_trace inp df = Inr t \<Longrightarrow>
     fst (form_section inp df s) \<noteq> Some (Raised e)"
  by (simp add: form_section_add_ok clear_all_traces_signal)

lemma try_except_cases:
  "(\<exists>e s'. try_except env inp content s =
        (None, emit [Error (CHR 0xE2 # CHR 0x9D # CHR 0x8C # '' Error reading file: ''
                              @ str_exn (repr env) e)] s')
      \<and> traces s' = traces s
      \<and> (\<forall>fig. Plotly_chart fig \<in> set (page s') \<longleftrightarrow> Plotly_chart fig \<in> set (page s))
      \<and> (\<forall>msg. Info msg \<in> set (page s') \<longleftrightarrow> Info msg \<in> set (page s)))
   \<or> (\<exists>df. try_except env inp content s = form_section inp df s)"
proof (cases "read_csv env content")
  case (Inl e)
  then show ?thesis by (auto simp: try_except_read_fail)
next
  case (Inr df)
  show ?thesis
  proof (cases "add_clicked inp")
    case False
    with Inr have "try_except env inp content s = form_section inp df s"
      by (intro try_except_form form_section_no_add_signal)
    then show ?thesis by blast
  next
    case True
    show ?thesis
    proof (cases "built_trace inp df")
      case (Inl e)
      with Inr True show ?thesis
        by (intro disjI1 exI [of _ e]
              exI [of _ "emit (form_elements df (x_column_sel inp) (y_column_sel inp))
                           (emit (preview_elements df) s)"])
          (simp add: try_except_add_fail)
    next
      case (Inr t)
      with \<open>read_csv env content = Inr df\<close> True
      have "try_except env inp content s = form_section inp df s"
        by (intro try_except_form form_section_add_ok_signal)
      then show ?thesis by blast
    qed
  qed
qed

lemma try_except_chart:
  "Plotly_chart fig \<in> set (page (snd (try_except env inp content s))) \<longleftrightarrow>
     Plotly_chart fig \<in> set (page s)"
  using try_except_cases [of env inp content s] by (auto simp: form_section_chart)

lemma try_except_info:
  "Info msg \<in> set (page (snd (try_except env inp content s))) \<longleftrightarrow> Info msg \<in> set (page s)"
  using try_except_cases [of env inp content s] by (auto simp: form_section_info)

lemma try_except_not_raised: "fst (try_except env inp content s) \<noteq> Some (Raised e)"
  by (auto simp: try_except_def split: prod.splits option.splits signal.splits)

lemma try_except_Rerun_traces:
  "fst (try_except env inp content s) = Some RerunSignal \<Longrightarrow>
     traces (snd (try_except env inp content s)) = []"
  using try_except_cases [of env inp content s] by (auto simp: form_section_Rerun_traces)

lemma upload_section_chart:
  "Plotly_chart fig \<in> set (page (snd (upload_section env inp s))) \<longleftrightarrow>
     Plotly_chart fig \<in> set (page s)"
  by (simp add: upload_section_def try_except_chart split: option.splits)

lemma upload_section_info:
  "Info msg \<in> set (page (snd (upload_section env inp s))) \<longleftrightarrow> Info msg \<in> set (page s)"
  by (simp add: upload_section_def try_except_info split: option.splits)

lemma upload_section_not_raised: "fst (upload_section env inp s) \<noteq> Some (Raised e)"
  by (simp add: upload_section_def try_except_not_raised split: option.splits)

lemma upload_section_Rerun_traces:
  "fst (upload_section env inp s) = Some RerunSignal \<Longrightarrow>
     traces (snd (upload_section env inp s)) = []"
  by (simp add: upload_section_def try_except_Rerun_traces split: option.splits)

lemma run_script_eq:
  "run_script env inp ss =
     (let u = upload_section env inp
                (emit header_elements \<lparr>traces = init_session ss, page = []\<rparr>)
      in if fst u = Some RerunSignal then (Rerun, snd u)
         else (Done, snd (plot_section (snd u))))"
proof -
  define u where
    "u = upload_section env inp (emit header_elements \<lparr>traces = init_session ss, page = []\<rparr>)"
  obtain sig s2 where u: "u = (sig, s2)" by (cases u)
  obtain sig' s3 where p: "plot_section s2 = (sig', s3)" by (cases "plot_section s2")
  from p plot_section_signal [of s2] have sig': "sig' = None" by simp
  show ?thesis
  proof (cases sig)
    case None
    with u p sig' show ?thesis
      by (simp add: run_script_def Let_def flip: u_def)
  next
    case (Some a)
    with u upload_section_not_raised [of env inp "emit header_elements \<lparr>traces = init_session ss, page = []\<rparr>"]
    have "a = RerunSignal" by (cases a) (auto simp flip: u_def)
    with u Some show ?thesis
      by (simp add: run_script_def Let_def flip: u_def)
  qed
qed

subsection \<open>One run\<close>

lemma upload_section_no_file: "uploaded_file inp = None \<Longrightarrow> upload_section env inp s = (None, s)"
  by (simp add: upload_section_def)

lemma upload_section_read_fail:
  "uploaded_file inp = Some content \<Longrightarrow> read_csv env content = Inl e \<Longrightarrow>
     upload_section env inp s =
       (None, emit [Error (CHR 0xE2 # CHR 0x9D # CHR 0x8C # '' Error reading file: ''
                             @ str_exn (repr env) e)] s)"
  by (simp add: upload_section_def try_except_read_fail)


lemma upload_section_add_ok:
  "uploaded_file inp = Some content \<Longrightarrow> read_csv env content = Inr df \<Longrightarrow>
   add_clicked inp \<Longrightarrow> built_trace inp df = Inr t \<Longrightarrow>
     upload_section env inp s =
       clear_all_traces inp
         (emit [Success (''Added trace: '' @ tr_name t)]
            ((emit (form_elements df (x_column_sel inp) (y_column_sel inp))
                (emit (preview_elements df) s))
             \<lparr>traces := traces s @ [t]\<rparr>))"
proof -
  assume up: "uploaded_file inp = Some content" and ok: "read_csv env content = Inr df"
    and add: "add_clicked inp" and built: "built_trace inp df = Inr t"
  from ok add built have "try_except env inp content s = form_section inp df s"
    by (intro try_except_form form_section_add_ok_signal)
  with up add built show ?thesis
    by (simp add: upload_section_def form_section_add_ok)
qed

lemma upload_section_no_add:
  "uploaded_file inp = Some content \<Longrightarrow> read_csv env content = Inr df \<Longrightarrow>
   \<not> add_clicked inp \<Longrightarrow>
     upload_section env inp s =
       clear_all_traces inp
         (emit (form_elements df (x_column_sel inp) (y_column_sel inp))
            (emit (preview_elements df) s))"
proof -
  assume up: "uploaded_file inp = Some content" and ok: "read_csv env content = Inr df"
    and add: "\<not> add_clicked inp"
  from ok add have "try_except env inp content s = form_section inp df s"
    by (intro try_except_form form_section_no_add_signal)
  with up add show ?thesis
    by (simp add: upload_section_def form_section_no_add)
qed

lemma form_section_Rerun_clicked:
  "fst (form_section inp df s) = Some RerunSignal \<Longrightarrow> clear_clicked inp"
proof (cases "add_clicked inp")
  case False
  assume "fst (form_section inp df s) = Some RerunSignal"
  with False show ?thesis
    by (simp add: form_section_no_add clear_all_traces_signal split: if_splits)
next
  case True
  assume "fst (form_section inp df s) = Some RerunSignal"
  with True show ?thesis
    by (cases "built_trace inp df")
      (simp_all add: form_section_add_fail form_section_add_ok clear_all_traces_signal
         split: if_splits)
qed

lemma upload_section_Rerun_clicked:
  "fst (upload_section env inp s) = Some RerunSignal \<Longrightarrow> clear_clicked inp"
proof (cases "uploaded_file inp")
  case None
  assume "fst (upload_section env inp s) = Some RerunSignal"
  with None show ?thesis by (simp add: upload_section_no_file)
next
  case (Some content)
  assume "fst (upload_section env inp s) = Some RerunSignal"
  with Some have "fst (try_except env inp content s) = Some RerunSignal"
    by (simp add: upload_section_def)
  with try_except_cases [of env inp content s] show ?thesis
    by (auto dest: form_section_Rerun_clicked)
qed

lemma run_script_Rerun_clicked: "fst (run_script env inp ss) = Rerun \<Longrightarrow> clear_clicked inp"
  by (auto simp: run_script_eq Let_def split: if_splits dest: upload_section_Rerun_clicked)

lemma run_script_not_Uncaught: "fst (run_script env inp ss) \<noteq> Uncaught e"
  by (simp add: run_script_eq Let_def)

lemma run_script_Rerun_traces:
  "fst (run_script env inp ss) = Rerun \<Longrightarrow> traces (snd (run_script env inp ss)) = []"
  by (auto simp: run_script_eq Let_def upload_section_Rerun_traces split: if_splits)

lemma run_script_chart:
  "Plotly_chart fig \<in> set (page (snd (run_script env inp ss))) \<longleftrightarrow>
     build_figure (traces (snd (run_script env inp ss))) = Inr fig"
  by (simp add: run_script_eq Let_def upload_section_chart upload_section_Rerun_traces
        plot_section_chart plot_section_traces build_figure_empty)

lemma run_script_info:
  "Info msg \<in> set (page (snd (run_script env inp ss))) \<longleftrightarrow>
     traces (snd (run_script env inp ss)) \<noteq> [] \<and>
     msg = CHR 0xF0 # CHR 0x9F # CHR 0x93 # CHR 0x8C # '' Currently displaying ''
             @ str_nat (length (traces (snd (run_script env inp ss)))) @ '' trace(s)''"
  by (simp add: run_script_eq Let_def upload_section_info upload_section_Rerun_traces
        plot_section_info plot_section_traces)

lemma interact_eq:
  "interact env inp ss =
     (if fst (run_script env inp ss) = Rerun
      then run_script env (release_buttons inp) (Some [])
      else run_script env inp ss)"
proof (cases "fst (run_script env inp ss) = Rerun")
  case True
  obtain s where r: "run_script env inp ss = (Rerun, s)"
    using True by (cases "run_script env inp ss") simp
  with run_script_Rerun_traces [of env inp ss] have s: "traces s = []" by simp
  have "fst (run_script env (release_buttons inp) (Some [])) \<noteq> Rerun"
    using run_script_Rerun_clicked [of env "release_buttons inp" "Some []"]
    by (auto simp: release_buttons_def)
  then have "interact env (release_buttons inp) (Some []) = run_script env (release_buttons inp) (Some [])"
    by (subst interact.simps) (auto split: prod.splits outcome.splits)
  with r s True show ?thesis
    by (subst interact.simps) simp
next
  case False
  then show ?thesis
    by (subst interact.simps) (auto split: prod.splits outcome.splits)
qed

lemma interact_Done: "fst (run_script env inp ss) = Done \<Longrightarrow> interact env inp ss = run_script env inp ss"
  by (simp add: interact_eq)

lemma interact_is_run: "\<exists>inp' ss'. interact env inp ss = run_script env inp' ss'"
  by (auto simp: interact_eq)

lemma interact_not_Rerun: "fst (interact env inp ss) = Done"
proof -
  have "fst (run_script env (release_buttons inp) (Some [])) \<noteq> Rerun"
    using run_script_Rerun_clicked [of env "release_buttons inp" "Some []"]
    by (auto simp: release_buttons_def)
  then show ?thesis
    using run_script_not_Uncaught [of env inp ss]
      run_script_not_Uncaught [of env "release_buttons inp" "Some []"]
    by (simp add: interact_eq) (metis outcome.exhaust)
qed

subsection \<open>The claims\<close>

lemma add_to_plot_known:
  assumes "table_ok df" and "cx \<in> set (cols df)" and "cy \<in> set (cols df)"
  shows "add_to_plot df (col_name cx) (col_name cy) trace_name x_label y_label s =
           Inr (emit [Success (''Added trace: '' @ trace_name)]
                  (s\<lparr>traces := traces s @
                     [\<lparr>tr_x = col_values cx, tr_y = col_values cy, tr_name = trace_name,
                       tr_x_label = x_label, tr_y_label = y_label\<rparr>]\<rparr>))"
  using assms by (simp add: add_to_plot_def new_trace_known)

text \<open>
  C1. The add action on a well-formed table, with two selected names that are columns
  of it, succeeds, and the record it appends to the stored traces has an \<open>x\<close> and a
  \<open>y\<close> list of the same length.
\<close>

theorem add_appends_equal_lengths:
  assumes "table_ok df" and "x_column \<in> set (columns df)" and "y_column \<in> set (columns df)"
  shows "\<exists>t s'. add_to_plot df x_column y_column trace_name x_label y_label s = Inr s'
           \<and> traces s' = traces s @ [t]
           \<and> length (tr_x t) = length (tr_y t)"
proof -
  from assms(2) obtain cx where cx: "cx \<in> set (cols df)" "col_name cx = x_column"
    using column_of_name by blast
  from assms(3) obtain cy where cy: "cy \<in> set (cols df)" "col_name cy = y_column"
    using column_of_name by blast
  from assms(1) cx(1) cy(1) have "length (col_values cx) = length (col_values cy)"
    by (simp add: column_length)
  with add_to_plot_known [OF assms(1) cx(1) cy(1), of trace_name x_label y_label s] cx(2) cy(2)
  show ?thesis by auto
qed

theorem add_appends_equal_lengths_witness:
  "\<exists>t s'. add_to_plot example_table ''time'' ''value'' ''value vs time'' ''time'' ''value''
             \<lparr>traces = [], page = []\<rparr> = Inr s'
     \<and> traces s' = [] @ [t]
     \<and> length (tr_x t) = length (tr_y t)"
proof -
  have ok: "table_ok example_table"
    by (simp add: table_ok_def example_table_def columns_def)
  have x: "''time'' \<in> set (columns example_table)"
    by (simp add: example_table_def columns_def)
  have y: "''value'' \<in> set (columns example_table)"
    by (simp add: example_table_def columns_def)
  show ?thesis
    using add_appends_equal_lengths [OF ok x y, of "''value vs time''" "''time''" "''value''"
        "\<lparr>traces = [], page = []\<rparr>"]
    by simp
qed

text \<open>
  C5. The record the add action appends holds, as \<open>x\<close> and as \<open>y\<close>, the whole value
  lists of the two chosen columns of the table, in row order and unchanged.
\<close>

theorem add_passes_columns_through:
  assumes "table_ok df" and "cx \<in> set (cols df)" and "cy \<in> set (cols df)"
  shows "\<exists>s'. add_to_plot df (col_name cx) (col_name cy) trace_name x_label y_label s = Inr s'
           \<and> traces s' = traces s @
                [\<lparr>tr_x = col_values cx, tr_y = col_values cy, tr_name = trace_name,
                  tr_x_label = x_label, tr_y_label = y_label\<rparr>]"
  using add_to_plot_known [OF assms] by simp

theorem add_passes_columns_through_witness:
  "\<exists>s'. add_to_plot example_table ''time'' ''value'' ''value vs time'' ''time'' ''value''
           \<lparr>traces = [], page = []\<rparr> = Inr s'
     \<and> traces s' = [example_trace]"
proof -
  have ok: "table_ok example_table"
    by (simp add: table_ok_def example_table_def columns_def)
  have x: "\<lparr>col_name = ''time'', col_dtype = Int64, col_values = [0, 1, 2, 3, 4]\<rparr>
             \<in> set (cols example_table)"
    by (simp add: example_table_def)
  have y: "\<lparr>col_name = ''value'', col_dtype = Int64, col_values = [10, 20, 15, 30, 25]\<rparr>
             \<in> set (cols example_table)"
    by (simp add: example_table_def)
  show ?thesis
    using add_passes_columns_through [OF ok x y, of "''value vs time''" "''time''" "''value''"
        "\<lparr>traces = [], page = []\<rparr>"]
    by (simp add: example_trace_def)
qed

text \<open>
  C2. Whenever a run leaves traces in the store, the chart it shows is the figure built
  from the store, and the titles of its two axes are the labels of the last stored
  trace, whatever the labels of the traces before it.
\<close>

theorem axis_titles_of_last_trace:
  assumes "traces (snd (run_script env inp ss)) = earlier @ [t]"
  shows "\<exists>fig lay. build_figure (earlier @ [t]) = Inr fig
           \<and> Plotly_chart fig \<in> set (page (snd (run_script env inp ss)))
           \<and> fig_layout fig = Some lay
           \<and> xaxis_title_text lay = tr_x_label t
           \<and> yaxis_title_text lay = tr_y_label t"
proof -
  let ?fig = "update_layout (add_traces Figure (earlier @ [t])) t"
  have fig: "build_figure (earlier @ [t]) = Inr ?fig"
    by (simp add: build_figure_nonempty)
  with assms have "Plotly_chart ?fig \<in> set (page (snd (run_script env inp ss)))"
    by (simp add: run_script_chart)
  with fig show ?thesis
    by (simp add: update_layout_def)
qed

theorem axis_titles_of_last_trace_witness:
  "\<exists>fig lay.
     build_figure ([example_trace] @ [example_trace\<lparr>tr_x_label := ''t'', tr_y_label := ''v''\<rparr>])
       = Inr fig
     \<and> Plotly_chart fig \<in> set (page (snd (run_script example_env no_upload
          (Some [example_trace, example_trace\<lparr>tr_x_label := ''t'', tr_y_label := ''v''\<rparr>]))))
     \<and> fig_layout fig = Some lay
     \<and> xaxis_title_text lay = tr_x_label (example_trace\<lparr>tr_x_label := ''t'', tr_y_label := ''v''\<rparr>)
     \<and> yaxis_title_text lay = tr_y_label (example_trace\<lparr>tr_x_label := ''t'', tr_y_label := ''v''\<rparr>)"
proof -
  have "traces (snd (run_script example_env no_upload
          (Some [example_trace, example_trace\<lparr>tr_x_label := ''t'', tr_y_label := ''v''\<rparr>])))
        = [example_trace] @ [example_trace\<lparr>tr_x_label := ''t'', tr_y_label := ''v''\<rparr>]"
    by (simp add: run_script_eq upload_section_no_file no_upload_def plot_section_traces
          init_session_def)
  from axis_titles_of_last_trace [OF this] show ?thesis .
qed

lemma built_trace_known:
  assumes "table_ok df" and "x_column_sel inp \<in> set (columns df)"
    and "y_column_sel inp \<in> set (columns df)"
  shows "\<exists>cx cy. cx \<in> set (cols df) \<and> col_name cx = x_column_sel inp
           \<and> cy \<in> set (cols df) \<and> col_name cy = y_column_sel inp
           \<and> built_trace inp df =
               Inr \<lparr>tr_x = col_values cx, tr_y = col_values cy,
                    tr_name = text_input (trace_name_typed inp)
                                (y_column_sel inp @ '' vs '' @ x_column_sel inp),
                    tr_x_label = text_input (x_label_typed inp) (x_column_sel inp),
                    tr_y_label = text_input (y_label_typed inp) (y_column_sel inp)\<rparr>"
proof -
  from assms(2) obtain cx where cx: "cx \<in> set (cols df)" "col_name cx = x_column_sel inp"
    using column_of_name by blast
  from assms(3) obtain cy where cy: "cy \<in> set (cols df)" "col_name cy = y_column_sel inp"
    using column_of_name by blast
  from new_trace_known [OF assms(1) cx(1) cy(1)] cx cy show ?thesis
    by (auto simp: built_trace_def)
qed

lemma run_script_add:
  assumes "uploaded_file inp = Some content" and "read_csv env content = Inr df"
    and "add_clicked inp" and "\<not> clear_clicked inp" and "built_trace inp df = Inr t"
  shows "fst (run_script env inp ss) = Done"
    and "traces (snd (run_script env inp ss)) = init_session ss @ [t]"
  using assms
  by (simp_all add: run_script_eq upload_section_add_ok clear_all_traces_signal
        clear_all_traces_traces plot_section_traces)

lemma valid_add_run:
  assumes "valid_add env inp"
  shows "\<exists>t. builder_output env inp = Some t
           \<and> fst (run_script env inp ss) = Done
           \<and> traces (snd (run_script env inp ss)) = init_session ss @ [t]"
proof -
  from assms obtain content df where up: "uploaded_file inp = Some content"
    and ok: "read_csv env content = Inr df" and tab: "table_ok df"
    and x: "x_column_sel inp \<in> set (columns df)" and y: "y_column_sel inp \<in> set (columns df)"
    and add: "add_clicked inp" and clear: "\<not> clear_clicked inp"
    by (auto simp: valid_add_def split: option.splits sum.splits)
  from built_trace_known [OF tab x y] obtain t where t: "built_trace inp df = Inr t"
    by blast
  with up ok have "builder_output env inp = Some t"
    by (simp add: builder_output_def)
  with run_script_add [OF up ok add clear t] show ?thesis by blast
qed

lemma run_session_adds:
  "list_all (valid_add env) inps \<Longrightarrow>
     map Some (init_session (run_session env inps ss)) =
       map Some (init_session ss) @ map (builder_output env) inps"
proof (induction inps arbitrary: ss)
  case Nil
  then show ?case by simp
next
  case (Cons inp inps)
  then have v: "valid_add env inp" and vs: "list_all (valid_add env) inps" by simp_all
  from valid_add_run [OF v, of ss] obtain t where t: "builder_output env inp = Some t"
    and d: "fst (run_script env inp ss) = Done"
    and tr: "traces (snd (run_script env inp ss)) = init_session ss @ [t]"
    by blast
  from d have "interact env inp ss = run_script env inp ss" by (rule interact_Done)
  with tr have "run_session env (inp # inps) ss = run_session env inps (Some (init_session ss @ [t]))"
    by simp
  with Cons.IH [OF vs, of "Some (init_session ss @ [t])"] t show ?case
    by (simp add: init_session_def)
qed

lemma valid_example_add: "valid_add example_env example_add"
  by (simp add: valid_add_def example_env_def example_add_def example_table_def table_ok_def
        columns_def)

lemma builder_output_example: "builder_output example_env example_add = Some example_trace"
  by (simp add: builder_output_def example_env_def example_add_def example_table_def
        built_trace_def new_trace_def getitem_def tolist_def text_input_def example_trace_def)

text \<open>
  C3. A session that starts with an empty store and consists of add actions with valid
  selections only ends with as many stored traces as there were actions, and the
  stored traces are the outputs of the trace builder, one per action, in the order of
  the actions. Nothing limits their number and equal records are all kept.
\<close>

theorem adds_accumulate_in_order:
  assumes "init_session ss = []" and "list_all (valid_add env) inps"
  shows "length (init_session (run_session env inps ss)) = length inps
         \<and> map Some (init_session (run_session env inps ss)) = map (builder_output env) inps"
proof -
  from run_session_adds [OF assms(2), of ss] assms(1)
  have eq: "map Some (init_session (run_session env inps ss)) = map (builder_output env) inps"
    by simp
  then have "length (init_session (run_session env inps ss)) = length inps"
    by (rule map_eq_imp_length_eq)
  with eq show ?thesis by simp
qed

theorem adds_accumulate_in_order_witness:
  "length (init_session (run_session example_env [example_add, example_add, example_add] None)) = 3
   \<and> init_session (run_session example_env [example_add, example_add, example_add] None)
       = [example_trace, example_trace, example_trace]"
proof -
  have start: "init_session (None :: int trace list option) = []"
    by (simp add: init_session_def)
  have valid: "list_all (valid_add example_env) [example_add, example_add, example_add]"
    by (simp add: valid_example_add)
  from adds_accumulate_in_order [OF start valid] show ?thesis
    by (simp add: builder_output_example map_eq_Cons_conv)
qed

text \<open>
  C4. When the user types no x label, no y label and no trace name, a valid add action
  appends a record whose x label is the name of the chosen x column, whose y label is
  the name of the chosen y column, and whose name is the y column name, \<open>vs\<close> and the
  x column name.
\<close>

theorem defaults_of_labels_and_name:
  assumes "valid_add env inp" and "x_label_typed inp = None" and "y_label_typed inp = None"
    and "trace_name_typed inp = None"
  shows "\<exists>t. builder_output env inp = Some t
           \<and> traces (snd (run_script env inp ss)) = init_session ss @ [t]
           \<and> tr_x_label t = x_column_sel inp
           \<and> tr_y_label t = y_column_sel inp
           \<and> tr_name t = y_column_sel inp @ '' vs '' @ x_column_sel inp"
proof -
  from valid_add_run [OF assms(1), of ss] obtain t where t: "builder_output env inp = Some t"
    and tr: "traces (snd (run_script env inp ss)) = init_session ss @ [t]"
    by blast
  from t obtain df where "built_trace inp df = Inr t"
    by (auto simp: builder_output_def split: option.splits sum.splits)
  with assms(2-4) have "tr_x_label t = x_column_sel inp" "tr_y_label t = y_column_sel inp"
    "tr_name t = y_column_sel inp @ '' vs '' @ x_column_sel inp"
    by (auto simp: built_trace_def new_trace_def text_input_def split: sum.splits)
  with t tr show ?thesis by blast
qed

theorem defaults_of_labels_and_name_witness:
  "\<exists>t. builder_output example_env example_add = Some t
     \<and> traces (snd (run_script example_env example_add None)) = [t]
     \<and> tr_x_label t = ''time''
     \<and> tr_y_label t = ''value''
     \<and> tr_name t = ''value vs time''"
proof -
  have "x_label_typed example_add = None" "y_label_typed example_add = None"
    "trace_name_typed example_add = None"
    by (simp_all add: example_add_def)
  from defaults_of_labels_and_name [OF valid_example_add this, of None] show ?thesis
    by (simp add: example_add_def init_session_def)
qed

text \<open>
  C6. When the uploaded file does not parse, the run still ends at its last line (no
  exception leaves the script and nothing is rerun), the stored traces are those the
  run started with, and the page shows an error message that ends with the text of
  the parser's exception.
\<close>

theorem parse_failure_is_reported:
  assumes "uploaded_file inp = Some content" and "read_csv env content = Inl e"
  shows "fst (run_script env inp ss) = Done
         \<and> interact env inp ss = run_script env inp ss
         \<and> traces (snd (run_script env inp ss)) = init_session ss
         \<and> Error (CHR 0xE2 # CHR 0x9D # CHR 0x8C # '' Error reading file: ''
                     @ str_exn (repr env) e)
               \<in> set (page (snd (run_script env inp ss)))"
proof -
  let ?s1 = "emit header_elements \<lparr>traces = init_session ss, page = []\<rparr>"
  let ?err = "Error (CHR 0xE2 # CHR 0x9D # CHR 0x8C # '' Error reading file: ''
                       @ str_exn (repr env) e)"
  have run: "run_script env inp ss = (Done, snd (plot_section (emit [?err] ?s1)))"
    using assms by (simp add: run_script_eq upload_section_read_fail)
  then have ended: "fst (run_script env inp ss) = Done" by simp
  have "?err \<in> set (page (emit [?err] ?s1))" by simp
  then have "?err \<in> set (page (snd (plot_section (emit [?err] ?s1))))"
    by (rule plot_section_keeps)
  with run ended interact_Done [OF ended] show ?thesis
    by (simp add: plot_section_traces)
qed

theorem parse_failure_is_reported_witness:
  "fst (run_script example_env (no_upload\<lparr>uploaded_file := Some ''broken''\<rparr>)
          (Some [example_trace])) = Done
   \<and> interact example_env (no_upload\<lparr>uploaded_file := Some ''broken''\<rparr>) (Some [example_trace])
       = run_script example_env (no_upload\<lparr>uploaded_file := Some ''broken''\<rparr>)
           (Some [example_trace])
   \<and> traces (snd (run_script example_env (no_upload\<lparr>uploaded_file := Some ''broken''\<rparr>)
                (Some [example_trace]))) = [example_trace]
   \<and> Error (CHR 0xE2 # CHR 0x9D # CHR 0x8C
               # '' Error reading file: No columns to parse from file'')
         \<in> set (page (snd (run_script example_env (no_upload\<lparr>uploaded_file := Some ''broken''\<rparr>)
                (Some [example_trace]))))"
proof -
  have up: "uploaded_file (no_upload\<lparr>uploaded_file := Some ''broken''\<rparr>) = Some ''broken''"
    by simp
  have bad: "read_csv example_env ''broken'' = Inl (ReadError ''No columns to parse from file'')"
    by (simp add: example_env_def)
  from parse_failure_is_reported [OF up bad, of "Some [example_trace]"] show ?thesis
    by (simp add: init_session_def)
qed

text \<open>
  C7. A click on the clear button, in a run that gets to the button, leaves no stored
  trace, however many there were: the run that takes the click stores the empty list,
  and the interaction ends, after the rerun, at the last line of the script with the
  store still empty.
\<close>

theorem clear_empties_store:
  assumes "uploaded_file inp = Some content" and "read_csv env content = Inr df"
    and "clear_clicked inp" and "\<not> add_clicked inp \<or> (\<exists>t. built_trace inp df = Inr t)"
  shows "traces (snd (run_script env inp ss)) = []
         \<and> fst (interact env inp ss) = Done
         \<and> traces (snd (interact env inp ss)) = []
         \<and> length (traces (snd (interact env inp ss))) = 0"
proof -
  let ?s1 = "emit header_elements \<lparr>traces = init_session ss, page = []\<rparr>"
  have "\<exists>s. upload_section env inp ?s1 = clear_all_traces inp s"
  proof (cases "add_clicked inp")
    case False
    with assms(1,2) show ?thesis by (auto simp: upload_section_no_add)
  next
    case True
    with assms(4) obtain t where "built_trace inp df = Inr t" by blast
    with True assms(1,2) show ?thesis by (auto simp: upload_section_add_ok)
  qed
  then obtain s where u: "upload_section env inp ?s1 = clear_all_traces inp s" ..
  with assms(3) have first: "traces (snd (run_script env inp ss)) = []"
    by (simp add: run_script_eq Let_def clear_all_traces_traces plot_section_traces)
  let ?s1' = "emit header_elements \<lparr>traces = init_session (Some []), page = []\<rparr>"
  have rel: "uploaded_file (release_buttons inp) = Some content"
    "\<not> add_clicked (release_buttons inp)" "\<not> clear_clicked (release_buttons inp)"
    using assms(1) by (simp_all add: release_buttons_def)
  have second: "traces (snd (run_script env (release_buttons inp) (Some []))) = []"
    using rel assms(2)
    by (simp add: run_script_eq Let_def upload_section_no_add clear_all_traces_traces
          clear_all_traces_signal plot_section_traces init_session_def)
  from first second have "traces (snd (interact env inp ss)) = []"
    by (simp add: interact_eq)
  with first interact_not_Rerun [of env inp ss] show ?thesis by simp
qed

theorem clear_empties_store_witness:
  "traces (snd (run_script example_env (example_add\<lparr>add_clicked := False, clear_clicked := True\<rparr>)
             (Some [example_trace, example_trace]))) = []
   \<and> fst (interact example_env (example_add\<lparr>add_clicked := False, clear_clicked := True\<rparr>)
             (Some [example_trace, example_trace])) = Done
   \<and> traces (snd (interact example_env (example_add\<lparr>add_clicked := False, clear_clicked := True\<rparr>)
             (Some [example_trace, example_trace]))) = []
   \<and> length (traces (snd (interact example_env
             (example_add\<lparr>add_clicked := False, clear_clicked := True\<rparr>)
             (Some [example_trace, example_trace])))) = 0"
proof -
  let ?inp = "example_add\<lparr>add_clicked := False, clear_clicked := True\<rparr>"
  have up: "uploaded_file ?inp = Some ''data.csv''" by (simp add: example_add_def)
  have ok: "read_csv example_env ''data.csv'' = Inr example_table"
    by (simp add: example_env_def)
  have clear: "clear_clicked ?inp" by simp
  have add: "\<not> add_clicked ?inp \<or> (\<exists>t. built_trace ?inp example_table = Inr t)" by simp
  from clear_empties_store [OF up ok clear add, of "Some [example_trace, example_trace]"]
  show ?thesis .
qed






lemma str_nat_one: "str_nat (Suc 0) = ''1''"
  by (simp add: str_nat.simps)

text \<open>
  C9. The chart and the count of traces are on the page of a run exactly when the run
  leaves traces in the store: with an empty store neither is there, with a non-empty
  store the chart is the figure of the stored traces and the count is their number. A
  run without an uploaded file keeps the store it found, so it shows the chart of the
  traces stored before. The same holds of the page an interaction ends with.
\<close>

theorem chart_iff_store_nonempty:
  assumes "r = run_script env inp ss \<or> r = interact env inp ss"
  shows "(traces (snd r) = [] \<longrightarrow>
            Plotly_chart fig \<notin> set (page (snd r)) \<and> Info msg \<notin> set (page (snd r)))
         \<and> (traces (snd r) \<noteq> [] \<longrightarrow>
              (\<exists>fig'. build_figure (traces (snd r)) = Inr fig'
                 \<and> Plotly_chart fig' \<in> set (page (snd r)))
              \<and> Info (CHR 0xF0 # CHR 0x9F # CHR 0x93 # CHR 0x8C # '' Currently displaying ''
                        @ str_nat (length (traces (snd r))) @ '' trace(s)'')
                  \<in> set (page (snd r)))
         \<and> (uploaded_file inp = None \<longrightarrow> fst r = Done \<and> traces (snd r) = init_session ss)"
proof -
  from assms interact_is_run [of env inp ss]
  obtain inp' ss' where r: "r = run_script env inp' ss'" by metis
  have empty: "traces (snd r) = [] \<longrightarrow>
      Plotly_chart fig \<notin> set (page (snd r)) \<and> Info msg \<notin> set (page (snd r))"
    unfolding r by (simp add: run_script_chart run_script_info build_figure_empty)
  have nonempty: "traces (snd r) \<noteq> [] \<longrightarrow>
      (\<exists>fig'. build_figure (traces (snd r)) = Inr fig' \<and> Plotly_chart fig' \<in> set (page (snd r)))
      \<and> Info (CHR 0xF0 # CHR 0x9F # CHR 0x93 # CHR 0x8C # '' Currently displaying ''
                @ str_nat (length (traces (snd r))) @ '' trace(s)'')
          \<in> set (page (snd r))"
    unfolding r by (simp add: run_script_chart run_script_info build_figure_nonempty)
  have no_file: "uploaded_file inp = None \<longrightarrow> fst r = Done \<and> traces (snd r) = init_session ss"
  proof
    assume none: "uploaded_file inp = None"
    then have run: "fst (run_script env inp ss) = Done"
      "traces (snd (run_script env inp ss)) = init_session ss"
      by (simp_all add: run_script_eq upload_section_no_file plot_section_traces)
    with assms interact_Done [OF run(1)] show "fst r = Done \<and> traces (snd r) = init_session ss"
      by auto
  qed
  from empty nonempty no_file show ?thesis by blast
qed


theorem chart_iff_store_nonempty_witness:
  "(\<exists>fig'. build_figure [example_trace] = Inr fig'
       \<and> Plotly_chart fig'
           \<in> set (page (snd (run_script example_env no_upload (Some [example_trace])))))
   \<and> Info (CHR 0xF0 # CHR 0x9F # CHR 0x93 # CHR 0x8C # '' Currently displaying 1 trace(s)'')
       \<in> set (page (snd (run_script example_env no_upload (Some [example_trace]))))
   \<and> fst (run_script example_env no_upload (Some [example_trace])) = Done
   \<and> traces (snd (interact example_env no_upload None)) = []
   \<and> (\<forall>fig. Plotly_chart fig \<notin> set (page (snd (interact example_env no_upload None))))
   \<and> (\<forall>msg. Info msg \<notin> set (page (snd (interact example_env no_upload None))))"
proof -
  have none: "uploaded_file no_upload = None" by (simp add: no_upload_def)
  let ?r1 = "run_script example_env no_upload (Some [example_trace])"
  let ?r2 = "interact example_env no_upload (None :: int trace list option)"
  have one: "?r1 = ?r1 \<or> ?r1 = interact example_env no_upload (Some [example_trace])"
    by simp
  have two: "?r2 = run_script example_env no_upload None \<or> ?r2 = ?r2"
    by simp
  from chart_iff_store_nonempty [OF one] none
  have t1: "traces (snd ?r1) = [example_trace]" and d1: "fst ?r1 = Done"
    by (simp_all add: init_session_def)
  from chart_iff_store_nonempty [OF two] none
  have t2: "traces (snd ?r2) = []"
    by (simp add: init_session_def)
  from chart_iff_store_nonempty [OF one] t1
  have shown: "(\<exists>fig'. build_figure [example_trace] = Inr fig'
       \<and> Plotly_chart fig' \<in> set (page (snd ?r1)))
     \<and> Info (CHR 0xF0 # CHR 0x9F # CHR 0x93 # CHR 0x8C # '' Currently displaying 1 trace(s)'')
         \<in> set (page (snd ?r1))"
    by (simp add: str_nat_one)
  have hidden: "Plotly_chart fig \<notin> set (page (snd ?r2)) \<and> Info msg \<notin> set (page (snd ?r2))"
    for fig msg
    using chart_iff_store_nonempty [OF two, of fig msg] t2 by simp
  from shown d1 t2 hidden show ?thesis by simp
qed

text \<open>
  C10. A valid add action on a table without rows succeeds like any other: the record
  it appends has an empty \<open>x\<close> and an empty \<open>y\<close>, the run ends at its last line, and
  the chart of the run holds the scatter of that record, empty as it is, after the
  scatters of the traces stored before.
\<close>

theorem add_on_table_without_rows:
  assumes "valid_add env inp" and "uploaded_file inp = Some content"
    and "read_csv env content = Inr df" and "nrows df = 0"
  shows "\<exists>t fig. builder_output env inp = Some t
           \<and> tr_x t = [] \<and> tr_y t = []
           \<and> fst (run_script env inp ss) = Done
           \<and> traces (snd (run_script env inp ss)) = init_session ss @ [t]
           \<and> Plotly_chart fig \<in> set (page (snd (run_script env inp ss)))
           \<and> fig_data fig = map Scatter (init_session ss) @ [Scatter t]
           \<and> sc_x (Scatter t) = [] \<and> sc_y (Scatter t) = []"
proof -
  from assms(1-3) have tab: "table_ok df"
    and x: "x_column_sel inp \<in> set (columns df)" and y: "y_column_sel inp \<in> set (columns df)"
    by (simp_all add: valid_add_def)
  from valid_add_run [OF assms(1), of ss] obtain t where t: "builder_output env inp = Some t"
    and fin: "fst (run_script env inp ss) = Done"
    and tr: "traces (snd (run_script env inp ss)) = init_session ss @ [t]"
    by blast
  from t assms(2,3) have built: "built_trace inp df = Inr t"
    by (simp add: builder_output_def split: sum.splits)
  from built_trace_known [OF tab x y] built obtain cx cy
    where cx: "cx \<in> set (cols df)" and cy: "cy \<in> set (cols df)"
      and tx: "tr_x t = col_values cx" and ty: "tr_y t = col_values cy"
    by auto
  from column_length [OF tab cx] column_length [OF tab cy] assms(4) tx ty
  have empty: "tr_x t = []" "tr_y t = []" by simp_all
  let ?fig = "update_layout (add_traces Figure (init_session ss @ [t])) t"
  have "build_figure (init_session ss @ [t]) = Inr ?fig"
    by (simp add: build_figure_nonempty)
  with tr have chart: "Plotly_chart ?fig \<in> set (page (snd (run_script env inp ss)))"
    by (simp add: run_script_chart)
  have data: "fig_data ?fig = map Scatter (init_session ss) @ [Scatter t]"
    by (simp add: update_layout_def fig_data_add_traces Figure_def)
  from empty have sc: "sc_x (Scatter t) = []" "sc_y (Scatter t) = []"
    by (simp_all add: Scatter_def)
  from t empty fin tr chart data sc show ?thesis by blast
qed

theorem add_on_table_without_rows_witness:
  "\<exists>t fig. builder_output example_env (example_add\<lparr>uploaded_file := Some ''header.csv''\<rparr>) = Some t
     \<and> tr_x t = [] \<and> tr_y t = []
     \<and> fst (run_script example_env (example_add\<lparr>uploaded_file := Some ''header.csv''\<rparr>)
               (Some [example_trace])) = Done
     \<and> traces (snd (run_script example_env (example_add\<lparr>uploaded_file := Some ''header.csv''\<rparr>)
                  (Some [example_trace]))) = [example_trace] @ [t]
     \<and> Plotly_chart fig
         \<in> set (page (snd (run_script example_env
                  (example_add\<lparr>uploaded_file := Some ''header.csv''\<rparr>) (Some [example_trace]))))
     \<and> fig_data fig = map Scatter [example_trace] @ [Scatter t]
     \<and> sc_x (Scatter t) = [] \<and> sc_y (Scatter t) = []"
proof -
  let ?inp = "example_add\<lparr>uploaded_file := Some ''header.csv''\<rparr>"
  have valid: "valid_add example_env ?inp"
    by (simp add: valid_add_def example_env_def example_add_def header_only_table_def
          table_ok_def columns_def)
  have up: "uploaded_file ?inp = Some ''header.csv''" by simp
  have ok: "read_csv example_env ''header.csv'' = Inr header_only_table"
    by (simp add: example_env_def)
  have rows: "nrows header_only_table = 0" by (simp add: header_only_table_def)
  from add_on_table_without_rows [OF valid up ok rows, of "Some [example_trace]"]
  show ?thesis by (simp add: init_session_def)
qed

end
